theory Spec2Isabelle
  imports Main
begin

section \<open>Python values that reach a Route\<close>

text \<open>
  Identifiers handed to the HTTP layer are snowflakes (an int or a str) or \<open>None\<close>.
  A Python \<open>str\<close> is kept as its UTF-8 bytes, so equality and concatenation agree
  with Python's and percent-encoding works byte by byte, as \<open>urllib\<close> does.
\<close>

datatype pyval = PNone | PInt int | PStr string

text \<open>\<open>bool(v)\<close>: \<open>None\<close>, \<open>0\<close> and the empty string are false.\<close>

fun truthy :: "pyval \<Rightarrow> bool" where
  "truthy PNone = False"
| "truthy (PInt i) = (i \<noteq> 0)"
| "truthy (PStr s) = (s \<noteq> [])"

text \<open>\<open>str(n)\<close> for a non-negative int: its decimal digits.\<close>

function str_nat :: "nat \<Rightarrow> string" where
  "str_nat n =
     (if n < 10 then [''0123456789'' ! n]
      else str_nat (n div 10) @ [''0123456789'' ! (n mod 10)])"
  by pat_completeness auto
termination
  by (relation "measure id") auto

declare str_nat.simps [simp del]

definition str_int :: "int \<Rightarrow> string" where
  "str_int i = (if i < 0 then CHR ''-'' # str_nat (nat (- i)) else str_nat (nat i))"

text \<open>What an f-string writes for \<open>{v}\<close>: \<open>str(v)\<close>. \<open>None\<close> is written \<open>None\<close>.\<close>

fun py_str :: "pyval \<Rightarrow> string" where
  "py_str PNone = ''None''"
| "py_str (PInt i) = str_int i"
| "py_str (PStr s) = s"

text \<open>\<open>d.get(k)\<close> on the keyword dict: \<open>None\<close> when the key is absent.\<close>

definition dict_get :: "(string \<rightharpoonup> pyval) \<Rightarrow> string \<Rightarrow> pyval" where
  "dict_get d k = (case d k of None \<Rightarrow> PNone | Some v \<Rightarrow> v)"

section \<open>Route (api/http/route.py)\<close>

text \<open>The attribute \<open>method\<close> is the field \<open>http_method\<close>: \<open>method\<close> is a keyword of Isabelle.\<close>

record route =
  path :: string
  http_method :: string
  params :: "string \<rightharpoonup> pyval"
  channel_id :: pyval
  guild_id :: pyval
  webhook_id :: pyval
  webhook_token :: pyval
  known_bucket :: "string option"

text \<open>\<open>Route.__init__(self, method, path, **parameters)\<close>.\<close>

definition Route_init :: "string \<Rightarrow> string \<Rightarrow> (string \<rightharpoonup> pyval) \<Rightarrow> route" where
  "Route_init method_arg path_arg parameters =
     \<lparr> path = path_arg,
       http_method = method_arg,
       params = parameters,
       channel_id = dict_get parameters ''channel_id'',
       guild_id = dict_get parameters ''guild_id'',
       webhook_id = dict_get parameters ''webhook_id'',
       webhook_token = dict_get parameters ''webhook_token'',
       known_bucket = None \<rparr>"

text \<open>The property \<open>endpoint\<close>: \<open>f"{self.method} {self.path}"\<close>.\<close>

definition endpoint :: "route \<Rightarrow> string" where
  "endpoint self = http_method self @ '' '' @ path self"

text \<open>
  The part of \<open>rl_bucket\<close> after the test of \<open>known_bucket\<close> (lines 51 to 53):
  the key computed from the identifiers, with \<open>if self.webhook_token\<close> a truth test.
\<close>

definition provisional_key :: "route \<Rightarrow> string" where
  "provisional_key self =
     (if truthy (webhook_token self)
      then py_str (webhook_id self) @ py_str (webhook_token self) @ '':'' @
           py_str (channel_id self) @ '':'' @ py_str (guild_id self) @ '':'' @ endpoint self
      else py_str (channel_id self) @ '':'' @ py_str (guild_id self) @ '':'' @ endpoint self)"

text \<open>
  The property \<open>rl_bucket\<close>. \<open>if self.known_bucket\<close> is a truth test on an
  \<open>Optional[str]\<close>: \<open>None\<close> and the empty string both fall through.
\<close>

definition rl_bucket :: "route \<Rightarrow> string" where
  "rl_bucket self =
     (case known_bucket self of
        Some b \<Rightarrow> if b \<noteq> [] then b else provisional_key self
      | None \<Rightarrow> provisional_key self)"

text \<open>
  \<open>__eq__\<close> answers \<open>NotImplemented\<close> for anything that is not a Route;
  \<open>__hash__\<close> is Python's string hash of the key. The string hash is seeded per
  process, so it is a parameter here.
\<close>

datatype pyobj = ARoute route | NotARoute pyval

datatype eq_result = EqBool bool | NotImplemented

fun Route_eq :: "route \<Rightarrow> pyobj \<Rightarrow> eq_result" where
  "Route_eq self (ARoute other) = EqBool (rl_bucket self = rl_bucket other)"
| "Route_eq self (NotARoute v) = NotImplemented"

definition Route_hash :: "(string \<Rightarrow> int) \<Rightarrow> route \<Rightarrow> int" where
  "Route_hash hash self = hash (rl_bucket self)"

definition Route_repr :: "route \<Rightarrow> string" where
  "Route_repr self = ''<Route '' @ endpoint self @ ''>''"

definition Route_str :: "route \<Rightarrow> string" where
  "Route_str self = endpoint self"

section \<open>Route.url\<close>

text \<open>\<open>__api_version__\<close> of client/const.py and the class attribute \<open>BASE\<close>.\<close>

definition api_version :: int where
  "api_version = 10"

definition BASE :: string where
  "BASE = ''https://discord.com/api/v'' @ str_int api_version"

text \<open>
  \<open>urllib.parse.quote(s)\<close> with its default \<open>safe="/"\<close>: the UTF-8 bytes of s, where a
  byte that is not a letter, a digit or one of \<open>_.-~/\<close> is written as a percent sign and
  two upper-case hexadecimal digits.
\<close>

definition always_safe :: string where
  "always_safe = ''ABCDEFGHIJKLMNOPQRSTUVWXYZabcdefghijklmnopqrstuvwxyz0123456789_.-~''"

definition hex_upper :: "nat \<Rightarrow> char" where
  "hex_upper n = ''0123456789ABCDEF'' ! n"

definition quote_byte :: "char \<Rightarrow> string" where
  "quote_byte c =
     (if c \<in> set (always_safe @ ''/'') then [c]
      else [CHR ''%'', hex_upper (of_char c div 16), hex_upper (of_char c mod 16)])"

definition uriquote :: "string \<Rightarrow> string" where
  "uriquote s = concat (map quote_byte s)"

text \<open>One value of the dict comprehension in \<open>url\<close>: \<open>_uriquote(v) if isinstance(v, str) else v\<close>.\<close>

fun quote_value :: "pyval \<Rightarrow> pyval" where
  "quote_value (PStr s) = PStr (uriquote s)"
| "quote_value v = v"

text \<open>
  \<open>str.format_map\<close>, read left to right as CPython's formatter does. Outside a field,
  \<open>{{\<close> and \<open>}}\<close> stand for one brace and a brace on its own is a \<open>ValueError\<close>. A
  field runs to the next \<open>}\<close>; an opening brace inside it, or the end of the string, is a
  \<open>ValueError\<close>. A field name that is empty or all digits is positional, which
  \<open>format_map\<close> refuses with a \<open>ValueError\<close>; any other name is looked up in the
  mapping, a \<open>KeyError\<close> when it is absent, and the value is written by \<open>str\<close>.
  Conversions (\<open>!\<close>), format specs (\<open>:\<close>), attribute and index lookups (\<open>.\<close>, \<open>[\<close>)
  and field names with bytes outside ASCII (Unicode digits also count as digits) are not
  modelled: the result there is \<open>Unsupported\<close>, which says nothing about Python.
\<close>

datatype py_error = KeyError string | ValueError | Unsupported

datatype fmt_state = Text | AfterOpen | InField string | AfterClose

definition is_digit :: "char \<Rightarrow> bool" where
  "is_digit c = (c \<in> set ''0123456789'')"

definition field_value :: "(string \<rightharpoonup> pyval) \<Rightarrow> string \<Rightarrow> py_error + string" where
  "field_value mapping name =
     (if list_all is_digit name then Inl ValueError
      else case mapping name of None \<Rightarrow> Inl (KeyError name) | Some v \<Rightarrow> Inr (py_str v))"

definition unmodelled_char :: "char \<Rightarrow> bool" where
  "unmodelled_char c = (c \<in> set ''!:.['' \<or> (128::nat) \<le> of_char c)"

definition emit :: "string \<Rightarrow> py_error + string \<Rightarrow> py_error + string" where
  "emit s rest = (case rest of Inl e \<Rightarrow> Inl e | Inr t \<Rightarrow> Inr (s @ t))"

fun fmt :: "(string \<rightharpoonup> pyval) \<Rightarrow> fmt_state \<Rightarrow> string \<Rightarrow> py_error + string" where
  "fmt mapping Text [] = Inr []"
| "fmt mapping AfterOpen [] = Inl ValueError"
| "fmt mapping (InField name) [] = Inl ValueError"
| "fmt mapping AfterClose [] = Inl ValueError"
| "fmt mapping Text (c # cs) =
     (if c = CHR ''{'' then fmt mapping AfterOpen cs
      else if c = CHR ''}'' then fmt mapping AfterClose cs
      else emit [c] (fmt mapping Text cs))"
| "fmt mapping AfterOpen (c # cs) =
     (if c = CHR ''{'' then emit ''{'' (fmt mapping Text cs)
      else if c = CHR ''}'' then Inl ValueError
      else if unmodelled_char c then Inl Unsupported
      else fmt mapping (InField [c]) cs)"
| "fmt mapping (InField name) (c # cs) =
     (if c = CHR ''}'' then
        (case field_value mapping name of
           Inl e \<Rightarrow> Inl e
         | Inr v \<Rightarrow> emit v (fmt mapping Text cs))
      else if c = CHR ''{'' then Inl ValueError
      else if unmodelled_char c then Inl Unsupported
      else fmt mapping (InField (name @ [c])) cs)"
| "fmt mapping AfterClose (c # cs) =
     (if c = CHR ''}'' then emit ''}'' (fmt mapping Text cs) else Inl ValueError)"

definition format_map :: "string \<Rightarrow> (string \<rightharpoonup> pyval) \<Rightarrow> py_error + string" where
  "format_map s mapping = fmt mapping Text s"

text \<open>The property \<open>url\<close>.\<close>

definition url :: "route \<Rightarrow> py_error + string" where
  "url self =
     format_map (BASE @ path self) (\<lambda>k. map_option quote_value (params self k))"

text \<open>
  A path template as the specification reads it: literal text and \<open>{name}\<close>
  placeholders. \<open>template_text\<close> is the string a caller writes, \<open>substitute\<close> the text with
  every placeholder replaced, and \<open>param_text\<close> what a keyword parameter is replaced by:
  percent-encoded when it is a string, \<open>str\<close> of it otherwise.
\<close>

datatype segment = Lit string | Hole string

fun template_text :: "segment list \<Rightarrow> string" where
  "template_text [] = []"
| "template_text (Lit s # segs) = s @ template_text segs"
| "template_text (Hole n # segs) = ''{'' @ n @ ''}'' @ template_text segs"

fun param_text :: "pyval \<Rightarrow> string" where
  "param_text (PStr s) = uriquote s"
| "param_text v = py_str v"

fun substitute :: "(string \<rightharpoonup> pyval) \<Rightarrow> segment list \<Rightarrow> string" where
  "substitute ps [] = []"
| "substitute ps (Lit s # segs) = s @ substitute ps segs"
| "substitute ps (Hole n # segs) =
     (case ps n of None \<Rightarrow> [] | Some v \<Rightarrow> param_text v) @ substitute ps segs"

definition plain_char :: "char \<Rightarrow> bool" where
  "plain_char c = (c \<noteq> CHR ''{'' \<and> c \<noteq> CHR ''}'')"

definition plain_name :: "string \<Rightarrow> bool" where
  "plain_name n =
     (list_all (\<lambda>c. plain_char c \<and> \<not> unmodelled_char c) n \<and> \<not> list_all is_digit n)"

fun well_formed :: "(string \<rightharpoonup> pyval) \<Rightarrow> segment list \<Rightarrow> bool" where
  "well_formed ps [] = True"
| "well_formed ps (Lit s # segs) = (list_all plain_char s \<and> well_formed ps segs)"
| "well_formed ps (Hole n # segs) = (plain_name n \<and> ps n \<noteq> None \<and> well_formed ps segs)"

section \<open>The Route's methods as operations on its state\<close>

text \<open>
  Every method and property of the class takes the Route and gives back a result
  together with the Route as the method leaves it. None of them assigns to an attribute.
\<close>

datatype route_op =
    Get_rl_bucket | Get_endpoint | Get_url | Call_eq pyobj | Call_hash | Call_repr | Call_str

datatype py_result = RStr string | RInt int | REq eq_result | Raised py_error

fun Route_call :: "(string \<Rightarrow> int) \<Rightarrow> route_op \<Rightarrow> route \<Rightarrow> py_result \<times> route" where
  "Route_call hash Get_rl_bucket self = (RStr (rl_bucket self), self)"
| "Route_call hash Get_endpoint self = (RStr (endpoint self), self)"
| "Route_call hash Get_url self =
     (case url self of Inl e \<Rightarrow> (Raised e, self) | Inr s \<Rightarrow> (RStr s, self))"
| "Route_call hash (Call_eq other) self = (REq (Route_eq self other), self)"
| "Route_call hash Call_hash self = (RInt (Route_hash hash self), self)"
| "Route_call hash Call_repr self = (RStr (Route_repr self), self)"
| "Route_call hash Call_str self = (RStr (Route_str self), self)"

text \<open>A sequence of calls on one Route, each on the state the one before left.\<close>

fun Route_calls :: "(string \<Rightarrow> int) \<Rightarrow> route_op list \<Rightarrow> route \<Rightarrow> py_result list \<times> route" where
  "Route_calls hash [] self = ([], self)"
| "Route_calls hash (op # ops) self =
     (case Route_call hash op self of
        (x, self') \<Rightarrow> (case Route_calls hash ops self' of (xs, self'') \<Rightarrow> (x # xs, self'')))"

section \<open>Request functions (api/http/http_requests)\<close>

text \<open>
  What a request function hands to \<open>self.request\<close>: the Route and the keyword arguments
  \<open>data\<close>, \<open>params\<close> and \<open>reason\<close>, each \<open>None\<close> here when the call does not pass it.
  \<open>data\<close> is a payload received from the caller or a dict written in the function;
  \<open>reason\<close> defaults to the sentinel \<open>MISSING\<close> of client/const.py.
\<close>

datatype 'a absent = MISSING | Given 'a

datatype 'p body = Payload 'p | Fields "(string \<times> pyval) list"

record 'p request_call =
  rq_route :: route
  rq_data :: "'p body option"
  rq_params :: "(string \<times> pyval) list option"
  rq_reason :: "pyval absent option"

text \<open>
  Modelled from the spec: \<open>dict_filter_none\<close> of client/utils/serializer.py, which is not
  among the sources. The specification does not describe it either, so the body is read
  off its name and its use in \<open>execute_webhook\<close>: it keeps the entries of a dict whose
  value is not \<open>None\<close>, in their order.
\<close>

definition dict_filter_none :: "(string \<times> pyval) list \<Rightarrow> (string \<times> pyval) list" where
  "dict_filter_none d = filter (\<lambda>kv. snd kv \<noteq> PNone) d"

text \<open>
  The request functions take \<open>self.request\<close> as their first argument and return what it
  returns. An identifier argument is written \<open>w_id\<close> for \<open>webhook_id\<close> and so on, the
  plain names being the fields of the Route.
\<close>

subsection \<open>webhooks.py\<close>

definition create_webhook :: "('p request_call \<Rightarrow> 'r) \<Rightarrow> pyval \<Rightarrow> pyval \<Rightarrow> pyval \<Rightarrow> 'r" where
  "create_webhook request c_id name avatar =
     request \<lparr> rq_route = Route_init ''POST'' (''/channels/'' @ py_str c_id @ ''/webhooks'') Map.empty,
               rq_data = Some (Fields [(''name'', name), (''avatar'', avatar)]),
               rq_params = None, rq_reason = None \<rparr>"

definition get_channel_webhooks :: "('p request_call \<Rightarrow> 'r) \<Rightarrow> pyval \<Rightarrow> 'r" where
  "get_channel_webhooks request c_id =
     request \<lparr> rq_route = Route_init ''GET'' (''/channels/'' @ py_str c_id @ ''/webhooks'') Map.empty,
               rq_data = None, rq_params = None, rq_reason = None \<rparr>"

definition get_guild_webhooks :: "('p request_call \<Rightarrow> 'r) \<Rightarrow> pyval \<Rightarrow> 'r" where
  "get_guild_webhooks request g_id =
     request \<lparr> rq_route = Route_init ''GET'' (''/guilds/'' @ py_str g_id @ ''/webhooks'') Map.empty,
               rq_data = None, rq_params = None, rq_reason = None \<rparr>"

definition get_webhook :: "('p request_call \<Rightarrow> 'r) \<Rightarrow> pyval \<Rightarrow> pyval \<Rightarrow> 'r" where
  "get_webhook request w_id w_token =
     (let endpoint_arg =
        ''/webhooks/'' @ py_str w_id @ (if truthy w_token then ''/'' @ py_str w_token else [])
      in request \<lparr> rq_route = Route_init ''GET'' endpoint_arg Map.empty,
                    rq_data = None, rq_params = None, rq_reason = None \<rparr>)"

definition modify_webhook ::
  "('p request_call \<Rightarrow> 'r) \<Rightarrow> pyval \<Rightarrow> pyval \<Rightarrow> pyval \<Rightarrow> pyval \<Rightarrow> pyval \<Rightarrow> 'r" where
  "modify_webhook request w_id name avatar c_id w_token =
     (let endpoint_arg =
        ''/webhooks/'' @ py_str w_id @ (if truthy w_token then ''/'' @ py_str w_token else [])
      in request \<lparr> rq_route = Route_init ''PATCH'' endpoint_arg Map.empty,
                    rq_data = Some (Fields [(''name'', name), (''avatar'', avatar), (''channel_id'', c_id)]),
                    rq_params = None, rq_reason = None \<rparr>)"

definition delete_webhook :: "('p request_call \<Rightarrow> 'r) \<Rightarrow> pyval \<Rightarrow> pyval \<Rightarrow> 'r" where
  "delete_webhook request w_id w_token =
     (let endpoint_arg =
        ''/webhooks/'' @ py_str w_id @ (if truthy w_token then ''/'' @ py_str w_token else [])
      in request \<lparr> rq_route = Route_init ''DELETE'' endpoint_arg Map.empty,
                    rq_data = None, rq_params = None, rq_reason = None \<rparr>)"

definition execute_webhook ::
  "('p request_call \<Rightarrow> 'r) \<Rightarrow> pyval \<Rightarrow> pyval \<Rightarrow> 'p \<Rightarrow> bool \<Rightarrow> pyval \<Rightarrow> 'r" where
  "execute_webhook request w_id w_token payload wait thread_id =
     request \<lparr> rq_route =
                 Route_init ''POST'' (''/webhooks/'' @ py_str w_id @ ''/'' @ py_str w_token) Map.empty,
               rq_data = Some (Payload payload),
               rq_params = Some (dict_filter_none
                 [(''wait'', PStr (if wait then ''true'' else ''false'')), (''thread_id'', thread_id)]),
               rq_reason = None \<rparr>"

definition get_webhook_message :: "('p request_call \<Rightarrow> 'r) \<Rightarrow> pyval \<Rightarrow> pyval \<Rightarrow> pyval \<Rightarrow> 'r" where
  "get_webhook_message request w_id w_token message_id =
     request \<lparr> rq_route = Route_init ''GET''
                 (''/webhooks/'' @ py_str w_id @ ''/'' @ py_str w_token @ ''/messages/'' @ py_str message_id)
                 Map.empty,
               rq_data = None, rq_params = None, rq_reason = None \<rparr>"

definition edit_webhook_message ::
  "('p request_call \<Rightarrow> 'r) \<Rightarrow> pyval \<Rightarrow> pyval \<Rightarrow> pyval \<Rightarrow> 'p \<Rightarrow> 'r" where
  "edit_webhook_message request w_id w_token message_id payload =
     request \<lparr> rq_route = Route_init ''PATCH''
                 (''/webhooks/'' @ py_str w_id @ ''/'' @ py_str w_token @ ''/messages/'' @ py_str message_id)
                 Map.empty,
               rq_data = Some (Payload payload), rq_params = None, rq_reason = None \<rparr>"

definition delete_webhook_message :: "('p request_call \<Rightarrow> 'r) \<Rightarrow> pyval \<Rightarrow> pyval \<Rightarrow> pyval \<Rightarrow> 'r" where
  "delete_webhook_message request w_id w_token message_id =
     request \<lparr> rq_route = Route_init ''DELETE''
                 (''/webhooks/'' @ py_str w_id @ ''/'' @ py_str w_token @ ''/messages/'' @ py_str message_id)
                 Map.empty,
               rq_data = None, rq_params = None, rq_reason = None \<rparr>"

subsection \<open>users.py\<close>

definition get_user :: "('p request_call \<Rightarrow> 'r) \<Rightarrow> pyval \<Rightarrow> 'r" where
  "get_user request user_id =
     request \<lparr> rq_route = Route_init ''GET'' (''/users/'' @ py_str user_id) Map.empty,
               rq_data = None, rq_params = None, rq_reason = None \<rparr>"

definition get_current_user :: "('p request_call \<Rightarrow> 'r) \<Rightarrow> 'r" where
  "get_current_user request = get_user request (PStr ''@me'')"

definition modify_client_user :: "('p request_call \<Rightarrow> 'r) \<Rightarrow> 'p \<Rightarrow> 'r" where
  "modify_client_user request payload =
     request \<lparr> rq_route = Route_init ''PATCH'' ''/users/@me'' Map.empty,
               rq_data = Some (Payload payload), rq_params = None, rq_reason = None \<rparr>"

definition get_user_guilds :: "('p request_call \<Rightarrow> 'r) \<Rightarrow> 'r" where
  "get_user_guilds request =
     request \<lparr> rq_route = Route_init ''GET'' ''/users/@me/guilds'' Map.empty,
               rq_data = None, rq_params = None, rq_reason = None \<rparr>"

definition leave_guild :: "('p request_call \<Rightarrow> 'r) \<Rightarrow> pyval \<Rightarrow> 'r" where
  "leave_guild request g_id =
     request \<lparr> rq_route = Route_init ''DELETE'' (''/users/@me/guilds/'' @ py_str g_id) Map.empty,
               rq_data = None, rq_params = None, rq_reason = None \<rparr>"

definition create_dm :: "('p request_call \<Rightarrow> 'r) \<Rightarrow> pyval \<Rightarrow> 'r" where
  "create_dm request recipient_id =
     request \<lparr> rq_route = Route_init ''POST'' ''/users/@me/channels'' Map.empty,
               rq_data = Some (Fields [(''recipient_id'', recipient_id)]),
               rq_params = None, rq_reason = None \<rparr>"

definition create_group_dm :: "('p request_call \<Rightarrow> 'r) \<Rightarrow> 'p \<Rightarrow> 'r" where
  "create_group_dm request payload =
     request \<lparr> rq_route = Route_init ''POST'' ''/users/@me/channels'' Map.empty,
               rq_data = Some (Payload payload), rq_params = None, rq_reason = None \<rparr>"

definition get_user_connections :: "('p request_call \<Rightarrow> 'r) \<Rightarrow> 'r" where
  "get_user_connections request =
     request \<lparr> rq_route = Route_init ''GET'' ''/users/@me/connections'' Map.empty,
               rq_data = None, rq_params = None, rq_reason = None \<rparr>"

definition group_dm_add_recipient ::
  "('p request_call \<Rightarrow> 'r) \<Rightarrow> pyval \<Rightarrow> pyval \<Rightarrow> pyval \<Rightarrow> pyval \<Rightarrow> 'r" where
  "group_dm_add_recipient request c_id user_id access_token nick =
     request \<lparr> rq_route = Route_init ''PUT''
                 (''/channels/'' @ py_str c_id @ ''/recipients/'' @ py_str user_id) Map.empty,
               rq_data = Some (Fields [(''access_token'', access_token), (''nick'', nick)]),
               rq_params = None, rq_reason = None \<rparr>"

definition group_dm_remove_recipient :: "('p request_call \<Rightarrow> 'r) \<Rightarrow> pyval \<Rightarrow> pyval \<Rightarrow> 'r" where
  "group_dm_remove_recipient request c_id user_id =
     request \<lparr> rq_route = Route_init ''DELETE''
                 (''/channels/'' @ py_str c_id @ ''/recipients/'' @ py_str user_id) Map.empty,
               rq_data = None, rq_params = None, rq_reason = None \<rparr>"

definition modify_current_user_nick :: "('p request_call \<Rightarrow> 'r) \<Rightarrow> pyval \<Rightarrow> pyval \<Rightarrow> 'r" where
  "modify_current_user_nick request g_id nickname =
     request \<lparr> rq_route = Route_init ''PATCH'' (''/guilds/'' @ py_str g_id @ ''/members/@me/nick'') Map.empty,
               rq_data = Some (Fields [(''nick'', nickname)]),
               rq_params = None, rq_reason = None \<rparr>"

subsection \<open>stickers.py\<close>

definition get_sticker :: "('p request_call \<Rightarrow> 'r) \<Rightarrow> pyval \<Rightarrow> 'r" where
  "get_sticker request sticker_id =
     request \<lparr> rq_route = Route_init ''GET'' (''/stickers/'' @ py_str sticker_id) Map.empty,
               rq_data = None, rq_params = None, rq_reason = None \<rparr>"

definition list_nitro_sticker_packs :: "('p request_call \<Rightarrow> 'r) \<Rightarrow> 'r" where
  "list_nitro_sticker_packs request =
     request \<lparr> rq_route = Route_init ''GET'' ''/sticker-packs'' Map.empty,
               rq_data = None, rq_params = None, rq_reason = None \<rparr>"

definition list_guild_stickers :: "('p request_call \<Rightarrow> 'r) \<Rightarrow> pyval \<Rightarrow> 'r" where
  "list_guild_stickers request g_id =
     request \<lparr> rq_route = Route_init ''GET'' (''/guilds/'' @ py_str g_id @ ''/stickers'') Map.empty,
               rq_data = None, rq_params = None, rq_reason = None \<rparr>"

definition get_guild_sticker :: "('p request_call \<Rightarrow> 'r) \<Rightarrow> pyval \<Rightarrow> pyval \<Rightarrow> 'r" where
  "get_guild_sticker request g_id sticker_id =
     request \<lparr> rq_route = Route_init ''GET''
                 (''/guilds/'' @ py_str g_id @ ''/stickers/'' @ py_str sticker_id) Map.empty,
               rq_data = None, rq_params = None, rq_reason = None \<rparr>"

definition create_guild_sticker ::
  "('p request_call \<Rightarrow> 'r) \<Rightarrow> 'p \<Rightarrow> pyval \<Rightarrow> pyval absent \<Rightarrow> 'r" where
  "create_guild_sticker request payload g_id reason =
     request \<lparr> rq_route = Route_init ''POST'' (''/guild/'' @ py_str g_id @ ''/stickers'') Map.empty,
               rq_data = Some (Payload payload), rq_params = None, rq_reason = Some reason \<rparr>"

definition modify_guild_sticker ::
  "('p request_call \<Rightarrow> 'r) \<Rightarrow> 'p \<Rightarrow> pyval \<Rightarrow> pyval \<Rightarrow> pyval absent \<Rightarrow> 'r" where
  "modify_guild_sticker request payload g_id sticker_id reason =
     request \<lparr> rq_route = Route_init ''PATCH''
                 (''/guild/'' @ py_str g_id @ ''/stickers/'' @ py_str sticker_id) Map.empty,
               rq_data = Some (Payload payload), rq_params = None, rq_reason = Some reason \<rparr>"

definition delete_guild_sticker ::
  "('p request_call \<Rightarrow> 'r) \<Rightarrow> pyval \<Rightarrow> pyval \<Rightarrow> pyval absent \<Rightarrow> 'r" where
  "delete_guild_sticker request g_id sticker_id reason =
     request \<lparr> rq_route = Route_init ''DELETE''
                 (''/guild/'' @ py_str g_id @ ''/stickers/'' @ py_str sticker_id) Map.empty,
               rq_data = None, rq_params = None, rq_reason = Some reason \<rparr>"

subsection \<open>All request functions of the three modules\<close>

text \<open>One constructor for each request function with its arguments, and the call it stands for.\<close>

datatype 'p api_call =
    Create_webhook pyval pyval pyval
  | Get_channel_webhooks pyval
  | Get_guild_webhooks pyval
  | Get_webhook pyval pyval
  | Modify_webhook pyval pyval pyval pyval pyval
  | Delete_webhook pyval pyval
  | Execute_webhook pyval pyval 'p bool pyval
  | Get_webhook_message pyval pyval pyval
  | Edit_webhook_message pyval pyval pyval 'p
  | Delete_webhook_message pyval pyval pyval
  | Get_current_user
  | Get_user pyval
  | Modify_client_user 'p
  | Get_user_guilds
  | Leave_guild pyval
  | Create_dm pyval
  | Create_group_dm 'p
  | Get_user_connections
  | Group_dm_add_recipient pyval pyval pyval pyval
  | Group_dm_remove_recipient pyval pyval
  | Modify_current_user_nick pyval pyval
  | Get_sticker pyval
  | List_nitro_sticker_packs
  | List_guild_stickers pyval
  | Get_guild_sticker pyval pyval
  | Create_guild_sticker 'p pyval "pyval absent"
  | Modify_guild_sticker 'p pyval pyval "pyval absent"
  | Delete_guild_sticker pyval pyval "pyval absent"

fun invoke :: "('p request_call \<Rightarrow> 'r) \<Rightarrow> 'p api_call \<Rightarrow> 'r" where
  "invoke request (Create_webhook c n a) = create_webhook request c n a"
| "invoke request (Get_channel_webhooks c) = get_channel_webhooks request c"
| "invoke request (Get_guild_webhooks g) = get_guild_webhooks request g"
| "invoke request (Get_webhook w t) = get_webhook request w t"
| "invoke request (Modify_webhook w n a c t) = modify_webhook request w n a c t"
| "invoke request (Delete_webhook w t) = delete_webhook request w t"
| "invoke request (Execute_webhook w t p wait th) = execute_webhook request w t p wait th"
| "invoke request (Get_webhook_message w t m) = get_webhook_message request w t m"
| "invoke request (Edit_webhook_message w t m p) = edit_webhook_message request w t m p"
| "invoke request (Delete_webhook_message w t m) = delete_webhook_message request w t m"
| "invoke request Get_current_user = get_current_user request"
| "invoke request (Get_user u) = get_user request u"
| "invoke request (Modify_client_user p) = modify_client_user request p"
| "invoke request Get_user_guilds = get_user_guilds request"
| "invoke request (Leave_guild g) = leave_guild request g"
| "invoke request (Create_dm u) = create_dm request u"
| "invoke request (Create_group_dm p) = create_group_dm request p"
| "invoke request Get_user_connections = get_user_connections request"
| "invoke request (Group_dm_add_recipient c u a n) = group_dm_add_recipient request c u a n"
| "invoke request (Group_dm_remove_recipient c u) = group_dm_remove_recipient request c u"
| "invoke request (Modify_current_user_nick g n) = modify_current_user_nick request g n"
| "invoke request (Get_sticker s) = get_sticker request s"
| "invoke request List_nitro_sticker_packs = list_nitro_sticker_packs request"
| "invoke request (List_guild_stickers g) = list_guild_stickers request g"
| "invoke request (Get_guild_sticker g s) = get_guild_sticker request g s"
| "invoke request (Create_guild_sticker p g r) = create_guild_sticker request p g r"
| "invoke request (Modify_guild_sticker p g s r) = modify_guild_sticker request p g s r"
| "invoke request (Delete_guild_sticker g s r) = delete_guild_sticker request g s r"

text \<open>The request functions of webhooks.py that address a webhook by id and token.\<close>

fun addresses_webhook :: "'p api_call \<Rightarrow> bool" where
  "addresses_webhook (Execute_webhook w t p wait th) = True"
| "addresses_webhook (Get_webhook w t) = True"
| "addresses_webhook (Modify_webhook w n a c t) = True"
| "addresses_webhook (Delete_webhook w t) = True"
| "addresses_webhook (Get_webhook_message w t m) = True"
| "addresses_webhook (Edit_webhook_message w t m p) = True"
| "addresses_webhook (Delete_webhook_message w t m) = True"
| "addresses_webhook other = False"

text \<open>
  A stand-in for \<open>self.request\<close> that records every call it receives, in order, and
  answers with \<open>respond\<close>: the log shows how often and with what a request function
  called it.
\<close>

definition recording ::
  "('p request_call \<Rightarrow> 'a) \<Rightarrow> 'p request_call \<Rightarrow> 'p request_call list \<Rightarrow> 'a \<times> 'p request_call list" where
  "recording respond call log = (respond call, log @ [call])"

section \<open>The dispatcher\<close>

text \<open>
  Modelled from the spec: the Dispatcher of sections 4.4 and 7 of the specification. The
  HTTP client that performs the exchanges is not among the sources. One call is a loop of
  exchanges with the transport: a 2xx reply returns the decoded body; a 429 is throttling
  and a 5xx reply or a network failure is a fault, both retried while their retry budget
  lasts and surfaced once it is used up; any other 4xx reply is terminal and surfaces
  \<open>RemoteRejected\<close> with the status and the decoded remote error code; a reply with any
  other status is a protocol violation, surfaced and never retried. The transport is the
  function from the number of exchanges already made to the reply of the next one;
  admission waits and back-off sleeps take time only and are left out. The result comes
  with the number of exchanges made.
\<close>

datatype 'b reply = Reply nat int 'b | NoReply

datatype error_kind = Throttled | ServerUnavailable | NetworkFailure | RemoteRejected | ProtocolViolation

datatype 'b sent = Decoded 'b | Failed error_kind "nat option" "int option"

fun dispatch :: "(nat \<Rightarrow> 'b reply) \<Rightarrow> nat \<Rightarrow> nat \<Rightarrow> nat \<Rightarrow> 'b sent \<times> nat" where
  "dispatch transport throttle_retries fault_retries n =
     (case transport n of
        NoReply \<Rightarrow>
          (case fault_retries of
             0 \<Rightarrow> (Failed NetworkFailure None None, Suc n)
           | Suc k \<Rightarrow> dispatch transport throttle_retries k (Suc n))
      | Reply status code body \<Rightarrow>
          if 200 \<le> status \<and> status < 300 then (Decoded body, Suc n)
          else if status = 429 then
            (case throttle_retries of
               0 \<Rightarrow> (Failed Throttled (Some status) (Some code), Suc n)
             | Suc k \<Rightarrow> dispatch transport k fault_retries (Suc n))
          else if 500 \<le> status \<and> status < 600 then
            (case fault_retries of
               0 \<Rightarrow> (Failed ServerUnavailable (Some status) (Some code), Suc n)
             | Suc k \<Rightarrow> dispatch transport throttle_retries k (Suc n))
          else if 400 \<le> status \<and> status < 500 then
            (Failed RemoteRejected (Some status) (Some code), Suc n)
          else (Failed ProtocolViolation (Some status) (Some code), Suc n))"

definition send :: "(nat \<Rightarrow> 'b reply) \<Rightarrow> nat \<Rightarrow> nat \<Rightarrow> 'b sent \<times> nat" where
  "send transport throttle_retries fault_retries = dispatch transport throttle_retries fault_retries 0"

section \<open>A hash-keyed map with Routes as keys\<close>







section \<open>Bucket keys\<close>

lemma str_nat_digit: "n < 10 \<Longrightarrow> str_nat n = [''0123456789'' ! n]"
  by (simp add: str_nat.simps)

lemma provisional_key_init_no_ids:
  "provisional_key (Route_init m p Map.empty) = ''None:None:'' @ m @ '' '' @ p"
  by (simp add: provisional_key_def Route_init_def dict_get_def endpoint_def)

lemma rl_bucket_fresh: "rl_bucket (Route_init m p ps) = provisional_key (Route_init m p ps)"
  by (simp add: rl_bucket_def Route_init_def)

text \<open>
  C1, as the code has it. The effective bucket key is the discovered bucket id when one
  is set and is not the empty string. Otherwise it is the provisional key: webhook id and
  token, then channel id, guild id and endpoint separated by colons when the webhook token
  is true, and channel id, guild id and endpoint otherwise, where every identifier is
  written by \<open>str\<close>, so that a missing one reads \<open>None\<close>. Two Routes built from the same
  method and path whose keyword parameters agree on the four identifiers have the same key.
\<close>

theorem rl_bucket_effective_key:
  "(known_bucket r = Some b \<and> b \<noteq> [] \<longrightarrow> rl_bucket r = b) \<and>
   ((known_bucket r = None \<or> known_bucket r = Some []) \<and> truthy (webhook_token r) \<longrightarrow>
      rl_bucket r = py_str (webhook_id r) @ py_str (webhook_token r) @ '':'' @
        py_str (channel_id r) @ '':'' @ py_str (guild_id r) @ '':'' @
        http_method r @ '' '' @ path r) \<and>
   ((known_bucket r = None \<or> known_bucket r = Some []) \<and> \<not> truthy (webhook_token r) \<longrightarrow>
      rl_bucket r = py_str (channel_id r) @ '':'' @ py_str (guild_id r) @ '':'' @
        http_method r @ '' '' @ path r) \<and>
   rl_bucket (Route_init m p Map.empty) = ''None:None:'' @ m @ '' '' @ p \<and>
   (ps1 ''channel_id'' = ps2 ''channel_id'' \<and> ps1 ''guild_id'' = ps2 ''guild_id'' \<and>
    ps1 ''webhook_id'' = ps2 ''webhook_id'' \<and> ps1 ''webhook_token'' = ps2 ''webhook_token'' \<longrightarrow>
      rl_bucket (Route_init m p ps1) = rl_bucket (Route_init m p ps2))"
proof (intro conjI impI)
  assume "known_bucket r = Some b \<and> b \<noteq> []"
  then show "rl_bucket r = b"
    by (simp add: rl_bucket_def)
next
  assume a: "(known_bucket r = None \<or> known_bucket r = Some []) \<and> truthy (webhook_token r)"
  then have "rl_bucket r = provisional_key r"
    by (auto simp: rl_bucket_def)
  with a show "rl_bucket r = py_str (webhook_id r) @ py_str (webhook_token r) @ '':'' @
        py_str (channel_id r) @ '':'' @ py_str (guild_id r) @ '':'' @
        http_method r @ '' '' @ path r"
    by (simp add: provisional_key_def endpoint_def)
next
  assume a: "(known_bucket r = None \<or> known_bucket r = Some []) \<and> \<not> truthy (webhook_token r)"
  then have "rl_bucket r = provisional_key r"
    by (auto simp: rl_bucket_def)
  with a show "rl_bucket r = py_str (channel_id r) @ '':'' @ py_str (guild_id r) @ '':'' @
        http_method r @ '' '' @ path r"
    by (simp add: provisional_key_def endpoint_def)
next
  show "rl_bucket (Route_init m p Map.empty) = ''None:None:'' @ m @ '' '' @ p"
    by (simp only: rl_bucket_fresh provisional_key_init_no_ids)
next
  assume "ps1 ''channel_id'' = ps2 ''channel_id'' \<and> ps1 ''guild_id'' = ps2 ''guild_id'' \<and>
    ps1 ''webhook_id'' = ps2 ''webhook_id'' \<and> ps1 ''webhook_token'' = ps2 ''webhook_token''"
  then have "provisional_key (Route_init m p ps1) = provisional_key (Route_init m p ps2)"
    by (simp add: provisional_key_def Route_init_def dict_get_def endpoint_def)
  then show "rl_bucket (Route_init m p ps1) = rl_bucket (Route_init m p ps2)"
    by (simp only: rl_bucket_fresh)
qed

theorem rl_bucket_effective_key_witness:
  "rl_bucket ((Route_init ''GET'' ''/gateway'' Map.empty)\<lparr>known_bucket := Some ''abc123''\<rparr>) = ''abc123'' \<and>
   rl_bucket (Route_init ''POST'' ''/hook'' [''webhook_id'' \<mapsto> PInt 7, ''webhook_token'' \<mapsto> PStr ''tok''])
     = ''7tok:None:None:POST /hook'' \<and>
   rl_bucket (Route_init ''GET'' ''/channels/{channel_id}'' [''channel_id'' \<mapsto> PInt 5])
     = ''5:None:GET /channels/{channel_id}'' \<and>
   rl_bucket (Route_init ''GET'' ''/x'' [''guild_id'' \<mapsto> PInt 3, ''limit'' \<mapsto> PInt 1])
     = rl_bucket (Route_init ''GET'' ''/x'' [''guild_id'' \<mapsto> PInt 3])"
proof (intro conjI)
  let ?r1 = "(Route_init ''GET'' ''/gateway'' Map.empty)\<lparr>known_bucket := Some ''abc123''\<rparr>"
  have "known_bucket ?r1 = Some ''abc123'' \<and> ''abc123'' \<noteq> []"
    by simp
  with rl_bucket_effective_key [of ?r1 "''abc123''"]
  show "rl_bucket ?r1 = ''abc123''"
    by blast
next
  let ?r2 = "Route_init ''POST'' ''/hook'' [''webhook_id'' \<mapsto> PInt 7, ''webhook_token'' \<mapsto> PStr ''tok'']"
  have "(known_bucket ?r2 = None \<or> known_bucket ?r2 = Some []) \<and> truthy (webhook_token ?r2)"
    by (simp add: Route_init_def dict_get_def)
  with rl_bucket_effective_key [of ?r2]
  have "rl_bucket ?r2 = py_str (webhook_id ?r2) @ py_str (webhook_token ?r2) @ '':'' @
        py_str (channel_id ?r2) @ '':'' @ py_str (guild_id ?r2) @ '':'' @
        http_method ?r2 @ '' '' @ path ?r2"
    by blast
  then show "rl_bucket ?r2 = ''7tok:None:None:POST /hook''"
    by (simp add: Route_init_def dict_get_def str_int_def str_nat_digit)
next
  let ?r3 = "Route_init ''GET'' ''/channels/{channel_id}'' [''channel_id'' \<mapsto> PInt 5]"
  have "(known_bucket ?r3 = None \<or> known_bucket ?r3 = Some []) \<and> \<not> truthy (webhook_token ?r3)"
    by (simp add: Route_init_def dict_get_def)
  with rl_bucket_effective_key [of ?r3]
  have "rl_bucket ?r3 = py_str (channel_id ?r3) @ '':'' @ py_str (guild_id ?r3) @ '':'' @
        http_method ?r3 @ '' '' @ path ?r3"
    by blast
  then show "rl_bucket ?r3 = ''5:None:GET /channels/{channel_id}''"
    by (simp add: Route_init_def dict_get_def str_int_def str_nat_digit)
next
  let ?ps1 = "[''guild_id'' \<mapsto> PInt 3, ''limit'' \<mapsto> PInt 1]"
  let ?ps2 = "[''guild_id'' \<mapsto> PInt 3]"
  have "?ps1 ''channel_id'' = ?ps2 ''channel_id'' \<and> ?ps1 ''guild_id'' = ?ps2 ''guild_id'' \<and>
    ?ps1 ''webhook_id'' = ?ps2 ''webhook_id'' \<and> ?ps1 ''webhook_token'' = ?ps2 ''webhook_token''"
    by simp
  with rl_bucket_effective_key [of _ _ "''GET''" "''/x''" ?ps1 ?ps2]
  show "rl_bucket (Route_init ''GET'' ''/x'' ?ps1) = rl_bucket (Route_init ''GET'' ''/x'' ?ps2)"
    by blast
qed

text \<open>
  Where the sentence of C1 fails: a Route without identifiers has the key
  \<open>None:None:GET /users/@me\<close>, not \<open>::GET /users/@me\<close>; and a discovered id that is
  the empty string is not the key.
\<close>

theorem rl_bucket_missing_ids_counterexample:
  "rl_bucket (Route_init ''GET'' ''/users/@me'' Map.empty) = ''None:None:GET /users/@me'' \<and>
   rl_bucket (Route_init ''GET'' ''/users/@me'' Map.empty) \<noteq> ''::GET /users/@me'' \<and>
   rl_bucket ((Route_init ''GET'' ''/users/@me'' Map.empty)\<lparr>known_bucket := Some []\<rparr>) \<noteq> []"
  by (simp add: rl_bucket_def provisional_key_def Route_init_def dict_get_def endpoint_def)

section \<open>Equality and hash\<close>

text \<open>
  C2. For two Routes, \<open>r1 == r2\<close> is true exactly when their effective bucket keys are
  the same string; \<open>hash(r1)\<close> is the hash of r1's key; so Routes with equal keys have
  equal hashes.
\<close>

theorem Route_eq_hash_by_key:
  "(Route_eq r1 (ARoute r2) = EqBool True) = (rl_bucket r1 = rl_bucket r2) \<and>
   Route_eq r1 (ARoute r2) \<noteq> NotImplemented \<and>
   Route_hash h r1 = h (rl_bucket r1) \<and>
   (rl_bucket r1 = rl_bucket r2 \<longrightarrow> Route_hash h r1 = Route_hash h r2)"
  by (simp add: Route_hash_def)

theorem Route_eq_hash_by_key_witness:
  "Route_eq (Route_init ''GET'' ''/x'' [''guild_id'' \<mapsto> PInt 3, ''limit'' \<mapsto> PInt 1])
     (ARoute (Route_init ''GET'' ''/x'' [''guild_id'' \<mapsto> PInt 3])) = EqBool True \<and>
   Route_hash (\<lambda>s. int (length s)) (Route_init ''GET'' ''/x'' [''guild_id'' \<mapsto> PInt 3, ''limit'' \<mapsto> PInt 1])
     = Route_hash (\<lambda>s. int (length s)) (Route_init ''GET'' ''/x'' [''guild_id'' \<mapsto> PInt 3])"
proof -
  let ?r1 = "Route_init ''GET'' ''/x'' [''guild_id'' \<mapsto> PInt 3, ''limit'' \<mapsto> PInt 1]"
  let ?r2 = "Route_init ''GET'' ''/x'' [''guild_id'' \<mapsto> PInt 3]"
  have k: "rl_bucket ?r1 = rl_bucket ?r2"
    by (simp add: rl_bucket_def provisional_key_def Route_init_def dict_get_def endpoint_def)
  from Route_eq_hash_by_key [of ?r1 ?r2 "\<lambda>s. int (length s)"] k
  show ?thesis
    by blast
qed

section \<open>Truth tests in the bucket key\<close>

text \<open>
  C10. \<open>rl_bucket\<close> tests truth, not presence. A Route whose \<open>known_bucket\<close> is the
  empty string still has the provisional key, the same key as with \<open>known_bucket\<close> unset.
  A Route whose \<open>webhook_token\<close> is the empty string has a provisional key of the
  non-webhook form, although a token was supplied; that key is its \<open>rl_bucket\<close> as long as
  no non-empty bucket id has been discovered.
\<close>

theorem rl_bucket_truth_tests:
  "rl_bucket (r\<lparr>known_bucket := Some []\<rparr>) = provisional_key r \<and>
   rl_bucket (r\<lparr>known_bucket := Some []\<rparr>) = rl_bucket (r\<lparr>known_bucket := None\<rparr>) \<and>
   (webhook_token r = PStr [] \<longrightarrow>
      provisional_key r =
        py_str (channel_id r) @ '':'' @ py_str (guild_id r) @ '':'' @ http_method r @ '' '' @ path r) \<and>
   (ps ''webhook_token'' = Some (PStr []) \<longrightarrow>
      webhook_token (Route_init m p ps) = PStr [] \<and>
      rl_bucket (Route_init m p ps) =
        py_str (dict_get ps ''channel_id'') @ '':'' @ py_str (dict_get ps ''guild_id'') @ '':'' @
        m @ '' '' @ p)"
proof (intro conjI impI)
  have same: "provisional_key (r\<lparr>known_bucket := kb\<rparr>) = provisional_key r" for kb
    by (simp add: provisional_key_def endpoint_def)
  show "rl_bucket (r\<lparr>known_bucket := Some []\<rparr>) = provisional_key r"
    by (simp add: rl_bucket_def same)
  show "rl_bucket (r\<lparr>known_bucket := Some []\<rparr>) = rl_bucket (r\<lparr>known_bucket := None\<rparr>)"
    by (simp add: rl_bucket_def same)
next
  assume "webhook_token r = PStr []"
  then show "provisional_key r =
        py_str (channel_id r) @ '':'' @ py_str (guild_id r) @ '':'' @ http_method r @ '' '' @ path r"
    by (simp add: provisional_key_def endpoint_def)
next
  assume t: "ps ''webhook_token'' = Some (PStr [])"
  then show "webhook_token (Route_init m p ps) = PStr []"
    by (simp add: Route_init_def dict_get_def)
  from t show "rl_bucket (Route_init m p ps) =
        py_str (dict_get ps ''channel_id'') @ '':'' @ py_str (dict_get ps ''guild_id'') @ '':'' @
        m @ '' '' @ p"
    unfolding rl_bucket_fresh
    by (simp add: provisional_key_def endpoint_def Route_init_def dict_get_def)
qed

theorem rl_bucket_truth_tests_witness:
  "rl_bucket (Route_init ''POST'' ''/hook''
      [''webhook_id'' \<mapsto> PInt 7, ''webhook_token'' \<mapsto> PStr [], ''channel_id'' \<mapsto> PInt 5])
     = ''5:None:POST /hook'' \<and>
   provisional_key (Route_init ''POST'' ''/hook''
      [''webhook_id'' \<mapsto> PInt 7, ''webhook_token'' \<mapsto> PStr [], ''channel_id'' \<mapsto> PInt 5])
     = ''5:None:POST /hook''"
proof -
  let ?ps = "[''webhook_id'' \<mapsto> PInt 7, ''webhook_token'' \<mapsto> PStr [], ''channel_id'' \<mapsto> PInt 5]"
  let ?r = "Route_init ''POST'' ''/hook'' ?ps"
  have t: "?ps ''webhook_token'' = Some (PStr [])"
    by simp
  have f: "py_str (channel_id ?r) @ '':'' @ py_str (guild_id ?r) @ '':'' @ http_method ?r @ '' '' @ path ?r
      = ''5:None:POST /hook''"
    by (simp add: Route_init_def dict_get_def str_int_def str_nat_digit)
  have g: "py_str (dict_get ?ps ''channel_id'') @ '':'' @ py_str (dict_get ?ps ''guild_id'') @ '':'' @
        ''POST'' @ '' '' @ ''/hook'' = ''5:None:POST /hook''"
    by (simp add: dict_get_def str_int_def str_nat_digit)
  from rl_bucket_truth_tests [of ?r ?ps "''POST''" "''/hook''"] t
  have "webhook_token ?r = PStr []" and
    k: "rl_bucket ?r = py_str (dict_get ?ps ''channel_id'') @ '':'' @ py_str (dict_get ?ps ''guild_id'') @ '':'' @
        ''POST'' @ '' '' @ ''/hook''"
    by blast+
  with rl_bucket_truth_tests [of ?r ?ps "''POST''" "''/hook''"]
  have "provisional_key ?r =
        py_str (channel_id ?r) @ '':'' @ py_str (guild_id ?r) @ '':'' @ http_method ?r @ '' '' @ path ?r"
    by blast
  with f g k show ?thesis
    by simp
qed

section \<open>The hash across discovery\<close>




lemma provisional_key_known_bucket:
  "provisional_key (r\<lparr>known_bucket := kb\<rparr>) = provisional_key r"
  by (simp add: provisional_key_def endpoint_def)





section \<open>The URL of a Route\<close>

lemma emit_Nil: "emit [] r = r"
  by (simp add: emit_def split: sum.split)

lemma emit_emit: "emit s (emit t r) = emit (s @ t) r"
  by (simp add: emit_def split: sum.split)

lemma emit_Inr: "emit s (Inr t) = Inr (s @ t)"
  by (simp add: emit_def)

text \<open>Text without braces is copied.\<close>

lemma fmt_plain_text:
  "list_all plain_char s \<Longrightarrow> fmt mapping Text (s @ t) = emit s (fmt mapping Text t)"
proof (induction s)
  case Nil
  show ?case by (simp add: emit_Nil)
next
  case (Cons c s)
  then have "plain_char c" and s: "list_all plain_char s"
    by simp_all
  then have "c \<noteq> CHR ''{''" and "c \<noteq> CHR ''}''"
    by (simp_all add: plain_char_def)
  with Cons.IH [OF s] show ?case
    by (simp add: emit_emit)
qed

text \<open>Inside a field the name is collected up to the closing brace, then looked up.\<close>

lemma fmt_in_field:
  "list_all (\<lambda>c. plain_char c \<and> \<not> unmodelled_char c) n \<Longrightarrow>
   fmt mapping (InField acc) (n @ CHR ''}'' # t) =
     (case field_value mapping (acc @ n) of
        Inl e \<Rightarrow> Inl e
      | Inr v \<Rightarrow> emit v (fmt mapping Text t))"
proof (induction n arbitrary: acc)
  case Nil
  show ?case by simp
next
  case (Cons c n)
  then have n: "list_all (\<lambda>c. plain_char c \<and> \<not> unmodelled_char c) n"
    and "plain_char c" and c3: "\<not> unmodelled_char c"
    by simp_all
  then have c: "c \<noteq> CHR ''{''" "c \<noteq> CHR ''}''" "\<not> unmodelled_char c"
    by (simp_all add: plain_char_def)
  from Cons.IH [OF n, of "acc @ [c]"] c show ?case
    by simp
qed

lemma fmt_hole:
  assumes "plain_name n"
  shows "fmt mapping Text (''{'' @ n @ ''}'' @ t) =
     (case field_value mapping n of
        Inl e \<Rightarrow> Inl e
      | Inr v \<Rightarrow> emit v (fmt mapping Text t))"
proof (cases n)
  case Nil
  with assms show ?thesis
    by (simp add: plain_name_def)
next
  case (Cons c cs)
  with assms have cs: "list_all (\<lambda>c. plain_char c \<and> \<not> unmodelled_char c) cs"
    and "plain_char c" and c3: "\<not> unmodelled_char c"
    by (simp_all add: plain_name_def)
  then have c: "c \<noteq> CHR ''{''" "c \<noteq> CHR ''}''" "\<not> unmodelled_char c"
    by (simp_all add: plain_char_def)
  from fmt_in_field [OF cs, of mapping "[c]" t] c Cons show ?thesis
    by simp
qed

lemma field_value_quoted:
  assumes "plain_name n" and "ps n = Some v"
  shows "field_value (\<lambda>k. map_option quote_value (ps k)) n = Inr (param_text v)"
proof -
  have "py_str (quote_value v) = param_text v"
    by (cases v) simp_all
  with assms show ?thesis
    by (simp add: field_value_def plain_name_def)
qed

lemma fmt_template:
  "well_formed ps segs \<Longrightarrow>
   fmt (\<lambda>k. map_option quote_value (ps k)) Text (template_text segs) = Inr (substitute ps segs)"
proof (induction ps segs rule: well_formed.induct)
  case (1 ps)
  show ?case by simp
next
  case (2 ps s segs)
  then show ?case
    by (simp add: fmt_plain_text emit_Inr)
next
  case (3 ps n segs)
  then obtain v where v: "ps n = Some v"
    by auto
  from 3 have n: "plain_name n" and rest: "well_formed ps segs"
    by simp_all
  from fmt_hole [OF n] field_value_quoted [of n ps v, OF n v] "3.IH" [OF rest] v show ?case
    by (simp add: emit_Inr)
qed

lemma BASE_value: "BASE = ''https://discord.com/api/v10''"
  by code_simp

lemma BASE_plain: "list_all plain_char BASE"
  unfolding BASE_value by (simp add: plain_char_def)

lemma url_template:
  assumes "path r = template_text segs" and "well_formed (params r) segs"
  shows "url r = Inr (BASE @ substitute (params r) segs)"
  using assms
  by (simp add: url_def format_map_def fmt_plain_text [OF BASE_plain] fmt_template emit_Inr)

text \<open>A placeholder without a keyword parameter: \<open>format_map\<close> raises \<open>KeyError\<close>.\<close>

lemma url_missing_parameter:
  assumes "list_all plain_char s" and "plain_name n" and "params r n = None"
    and "path r = s @ ''{'' @ n @ ''}'' @ t"
  shows "url r = Inl (KeyError n)"
proof -
  from assms(2) have "\<not> list_all is_digit n"
    by (simp add: plain_name_def)
  with assms(3) have "field_value (\<lambda>k. map_option quote_value (params r k)) n = Inl (KeyError n)"
    by (simp add: field_value_def)
  with assms(1,4) fmt_hole [OF assms(2)] show ?thesis
    by (simp add: url_def format_map_def fmt_plain_text [OF BASE_plain] fmt_plain_text emit_def)
qed

text \<open>No method or property of the class changes the Route it is called on.\<close>

lemma Route_call_state: "snd (Route_call h op r) = r"
  by (cases op) (simp_all split: sum.split)

text \<open>
  C5. Let the path of a Route be a template of literal text and \<open>{name}\<close> placeholders,
  each name with a keyword parameter. Then \<open>url\<close> returns the base URL
  \<open>https://discord.com/api/v10\<close> followed by the template with every placeholder
  replaced by its parameter, percent-encoded when the parameter is a string. Evaluating
  \<open>url\<close> leaves every Route as it was, whatever its path.
\<close>

theorem url_substitutes_placeholders:
  "(path r = template_text segs \<and> well_formed (params r) segs \<longrightarrow>
      url r = Inr (''https://discord.com/api/v10'' @ substitute (params r) segs) \<and>
      Route_call h Get_url r = (RStr (''https://discord.com/api/v10'' @ substitute (params r) segs), r)) \<and>
   snd (Route_call h Get_url r) = r"
proof (intro conjI impI)
  assume "path r = template_text segs \<and> well_formed (params r) segs"
  then have u: "url r = Inr (BASE @ substitute (params r) segs)"
    by (simp add: url_template)
  then show "url r = Inr (''https://discord.com/api/v10'' @ substitute (params r) segs)"
    by (simp add: BASE_value)
  from u show "Route_call h Get_url r =
      (RStr (''https://discord.com/api/v10'' @ substitute (params r) segs), r)"
    by (simp add: BASE_value)
next
  show "snd (Route_call h Get_url r) = r"
    by (rule Route_call_state)
qed

theorem url_substitutes_placeholders_witness:
  "url (Route_init ''GET'' ''/channels/{channel_id}/messages/{message_id}''
         [''channel_id'' \<mapsto> PInt 123, ''message_id'' \<mapsto> PStr ''a b?''])
     = Inr ''https://discord.com/api/v10/channels/123/messages/a%20b%3F''"
proof -
  let ?ps = "[''channel_id'' \<mapsto> PInt 123, ''message_id'' \<mapsto> PStr ''a b?'']"
  let ?r = "Route_init ''GET'' ''/channels/{channel_id}/messages/{message_id}'' ?ps"
  let ?segs = "[Lit ''/channels/'', Hole ''channel_id'', Lit ''/messages/'', Hole ''message_id'']"
  have p: "path ?r = template_text ?segs"
    by (simp add: Route_init_def)
  have "well_formed ?ps ?segs"
    by code_simp
  then have w: "well_formed (params ?r) ?segs"
    by (simp add: Route_init_def)
  have "''https://discord.com/api/v10'' @ substitute ?ps ?segs
      = ''https://discord.com/api/v10/channels/123/messages/a%20b%3F''"
    by code_simp
  then have v: "''https://discord.com/api/v10'' @ substitute (params ?r) ?segs
      = ''https://discord.com/api/v10/channels/123/messages/a%20b%3F''"
    by (simp add: Route_init_def)
  from url_substitutes_placeholders [of ?r ?segs] p w
  have "url ?r = Inr (''https://discord.com/api/v10'' @ substitute (params ?r) ?segs)"
    by blast
  with v show ?thesis
    by simp
qed

section \<open>Route operations read and never write\<close>

lemma Route_calls_state: "snd (Route_calls h ops r) = r"
proof (induction ops arbitrary: r)
  case Nil
  show ?case by simp
next
  case (Cons op ops)
  obtain x r' where c: "Route_call h op r = (x, r')"
    by (cases "Route_call h op r")
  with Route_call_state [of h op r] have r': "r' = r"
    by simp
  obtain xs r'' where cs: "Route_calls h ops r = (xs, r'')"
    by (cases "Route_calls h ops r")
  with Cons.IH [of r] have "r'' = r"
    by simp
  with c r' cs show ?case
    by simp
qed

text \<open>
  C6. The constructor fixes method, path, params and the four identifiers from its
  arguments and leaves \<open>known_bucket\<close> unset. Each of \<open>rl_bucket\<close>, \<open>endpoint\<close>, \<open>url\<close>,
  \<open>__eq__\<close>, \<open>__hash__\<close>, \<open>__repr__\<close> and \<open>__str__\<close>, and every sequence of them, returns
  the Route with all its fields as they were, \<open>known_bucket\<close> included. The one write
  there is, the assignment of a discovered bucket to \<open>known_bucket\<close>, changes no other field.
\<close>

theorem Route_operations_read_only:
  "snd (Route_call h op r) = r \<and>
   snd (Route_calls h ops r) = r \<and>
   path (Route_init m p ps) = p \<and>
   http_method (Route_init m p ps) = m \<and>
   params (Route_init m p ps) = ps \<and>
   channel_id (Route_init m p ps) = dict_get ps ''channel_id'' \<and>
   guild_id (Route_init m p ps) = dict_get ps ''guild_id'' \<and>
   webhook_id (Route_init m p ps) = dict_get ps ''webhook_id'' \<and>
   webhook_token (Route_init m p ps) = dict_get ps ''webhook_token'' \<and>
   known_bucket (Route_init m p ps) = None \<and>
   path (r\<lparr>known_bucket := kb\<rparr>) = path r \<and>
   http_method (r\<lparr>known_bucket := kb\<rparr>) = http_method r \<and>
   params (r\<lparr>known_bucket := kb\<rparr>) = params r \<and>
   channel_id (r\<lparr>known_bucket := kb\<rparr>) = channel_id r \<and>
   guild_id (r\<lparr>known_bucket := kb\<rparr>) = guild_id r \<and>
   webhook_id (r\<lparr>known_bucket := kb\<rparr>) = webhook_id r \<and>
   webhook_token (r\<lparr>known_bucket := kb\<rparr>) = webhook_token r"
proof -
  have "snd (Route_call h op r) = r"
    by (rule Route_call_state)
  moreover have "snd (Route_calls h ops r) = r"
    by (rule Route_calls_state)
  ultimately show ?thesis
    by (simp add: Route_init_def)
qed

theorem Route_operations_read_only_witness:
  "snd (Route_calls (\<lambda>s. int (length s))
          [Get_url, Call_hash, Get_rl_bucket, Call_eq (NotARoute PNone), Call_repr, Call_str, Get_endpoint]
          (Route_init ''GET'' ''/channels/{channel_id}'' [''channel_id'' \<mapsto> PInt 5]))
     = Route_init ''GET'' ''/channels/{channel_id}'' [''channel_id'' \<mapsto> PInt 5] \<and>
   fst (Route_call (\<lambda>s. int (length s)) Call_str
          (Route_init ''GET'' ''/channels/{channel_id}'' [''channel_id'' \<mapsto> PInt 5]))
     = RStr ''GET /channels/{channel_id}''"
proof -
  have "fst (Route_call (\<lambda>s. int (length s)) Call_str
          (Route_init ''GET'' ''/channels/{channel_id}'' [''channel_id'' \<mapsto> PInt 5]))
     = RStr ''GET /channels/{channel_id}''"
    by (simp add: Route_str_def endpoint_def Route_init_def)
  with Route_operations_read_only [of "\<lambda>s. int (length s)" _
      "Route_init ''GET'' ''/channels/{channel_id}'' [''channel_id'' \<mapsto> PInt 5]"
      "[Get_url, Call_hash, Get_rl_bucket, Call_eq (NotARoute PNone), Call_repr, Call_str, Get_endpoint]"]
  show ?thesis
    by blast
qed

section \<open>Routes built by the webhook request functions\<close>

lemma Route_init_no_parameters:
  "webhook_id (Route_init m p Map.empty) = PNone \<and>
   webhook_token (Route_init m p Map.empty) = PNone \<and>
   channel_id (Route_init m p Map.empty) = PNone \<and>
   guild_id (Route_init m p Map.empty) = PNone \<and>
   params (Route_init m p Map.empty) = Map.empty \<and>
   known_bucket (Route_init m p Map.empty) = None"
  by (simp add: Route_init_def dict_get_def)

lemma addresses_webhook_route:
  "addresses_webhook e \<Longrightarrow>
   rq_route (invoke (\<lambda>c. c) e) =
     Route_init (http_method (rq_route (invoke (\<lambda>c. c) e))) (path (rq_route (invoke (\<lambda>c. c) e))) Map.empty"
  by (cases e)
    (simp_all add: execute_webhook_def get_webhook_def modify_webhook_def delete_webhook_def
      get_webhook_message_def edit_webhook_message_def delete_webhook_message_def Let_def
      Route_init_def)

lemma key_without_ids:
  assumes "r = Route_init m p Map.empty"
  shows "rl_bucket r = ''None:None:'' @ endpoint r" and "provisional_key r = ''None:None:'' @ endpoint r"
  using assms
  by (simp_all add: rl_bucket_def provisional_key_def Route_init_def dict_get_def)

text \<open>The Route each of the seven functions builds: its method, and its path with id and token written in.\<close>

lemma webhook_routes:
  "rq_route (execute_webhook (\<lambda>c. c) w t payload wait th) =
     Route_init ''POST'' (''/webhooks/'' @ py_str w @ ''/'' @ py_str t) Map.empty"
  "rq_route (get_webhook (\<lambda>c. c) w t) =
     Route_init ''GET'' (''/webhooks/'' @ py_str w @ (if truthy t then ''/'' @ py_str t else [])) Map.empty"
  "rq_route (modify_webhook (\<lambda>c. c) w name avatar ch t) =
     Route_init ''PATCH'' (''/webhooks/'' @ py_str w @ (if truthy t then ''/'' @ py_str t else [])) Map.empty"
  "rq_route (delete_webhook (\<lambda>c. c) w t) =
     Route_init ''DELETE'' (''/webhooks/'' @ py_str w @ (if truthy t then ''/'' @ py_str t else [])) Map.empty"
  "rq_route (get_webhook_message (\<lambda>c. c) w t msg) =
     Route_init ''GET'' (''/webhooks/'' @ py_str w @ ''/'' @ py_str t @ ''/messages/'' @ py_str msg) Map.empty"
  "rq_route (edit_webhook_message (\<lambda>c. c) w t msg payload) =
     Route_init ''PATCH'' (''/webhooks/'' @ py_str w @ ''/'' @ py_str t @ ''/messages/'' @ py_str msg) Map.empty"
  "rq_route (delete_webhook_message (\<lambda>c. c) w t msg) =
     Route_init ''DELETE'' (''/webhooks/'' @ py_str w @ ''/'' @ py_str t @ ''/messages/'' @ py_str msg) Map.empty"
  by (simp_all add: execute_webhook_def get_webhook_def modify_webhook_def delete_webhook_def
      get_webhook_message_def edit_webhook_message_def delete_webhook_message_def Let_def)

text \<open>
  C4. The request functions that address a webhook by id and token (\<open>execute_webhook\<close>,
  \<open>get_webhook\<close>, \<open>modify_webhook\<close>, \<open>delete_webhook\<close>, \<open>get_webhook_message\<close>,
  \<open>edit_webhook_message\<close>, \<open>delete_webhook_message\<close>) each build their Route from a
  method and a path in which the webhook id and token are written, and pass no keyword
  parameters. So the Route's webhook id, webhook token, channel id and guild id are all
  \<open>None\<close>, the token test of \<open>rl_bucket\<close> fails and the key has the non-webhook form
  \<open>None:None:\<close>, method, space, path. Two such Routes have the same key exactly when
  method and path together read the same: only the ids in the path text tell webhooks apart.
\<close>

theorem webhook_routes_carry_no_ids:
  "(addresses_webhook e \<longrightarrow>
      webhook_id (rq_route (invoke (\<lambda>c. c) e)) = PNone \<and>
      webhook_token (rq_route (invoke (\<lambda>c. c) e)) = PNone \<and>
      channel_id (rq_route (invoke (\<lambda>c. c) e)) = PNone \<and>
      guild_id (rq_route (invoke (\<lambda>c. c) e)) = PNone \<and>
      params (rq_route (invoke (\<lambda>c. c) e)) = Map.empty \<and>
      \<not> truthy (webhook_token (rq_route (invoke (\<lambda>c. c) e))) \<and>
      rl_bucket (rq_route (invoke (\<lambda>c. c) e)) =
        ''None:None:'' @ http_method (rq_route (invoke (\<lambda>c. c) e)) @ '' '' @
        path (rq_route (invoke (\<lambda>c. c) e))) \<and>
   (addresses_webhook e \<and> addresses_webhook e' \<longrightarrow>
      (rl_bucket (rq_route (invoke (\<lambda>c. c) e)) = rl_bucket (rq_route (invoke (\<lambda>c. c) e'))) =
      (endpoint (rq_route (invoke (\<lambda>c. c) e)) = endpoint (rq_route (invoke (\<lambda>c. c) e')))) \<and>
   path (rq_route (execute_webhook (\<lambda>c. c) w t payload wait th)) =
     ''/webhooks/'' @ py_str w @ ''/'' @ py_str t \<and>
   path (rq_route (get_webhook (\<lambda>c. c) w t)) =
     ''/webhooks/'' @ py_str w @ (if truthy t then ''/'' @ py_str t else []) \<and>
   rq_route (execute_webhook (\<lambda>c. c) w t payload wait th) =
     Route_init ''POST'' (''/webhooks/'' @ py_str w @ ''/'' @ py_str t) Map.empty \<and>
   rq_route (get_webhook (\<lambda>c. c) w t) =
     Route_init ''GET'' (''/webhooks/'' @ py_str w @ (if truthy t then ''/'' @ py_str t else [])) Map.empty \<and>
   rq_route (modify_webhook (\<lambda>c. c) w name avatar ch t) =
     Route_init ''PATCH'' (''/webhooks/'' @ py_str w @ (if truthy t then ''/'' @ py_str t else [])) Map.empty \<and>
   rq_route (delete_webhook (\<lambda>c. c) w t) =
     Route_init ''DELETE'' (''/webhooks/'' @ py_str w @ (if truthy t then ''/'' @ py_str t else [])) Map.empty \<and>
   rq_route (get_webhook_message (\<lambda>c. c) w t msg) =
     Route_init ''GET'' (''/webhooks/'' @ py_str w @ ''/'' @ py_str t @ ''/messages/'' @ py_str msg) Map.empty \<and>
   rq_route (edit_webhook_message (\<lambda>c. c) w t msg payload) =
     Route_init ''PATCH'' (''/webhooks/'' @ py_str w @ ''/'' @ py_str t @ ''/messages/'' @ py_str msg) Map.empty \<and>
   rq_route (delete_webhook_message (\<lambda>c. c) w t msg) =
     Route_init ''DELETE'' (''/webhooks/'' @ py_str w @ ''/'' @ py_str t @ ''/messages/'' @ py_str msg) Map.empty"
proof (intro conjI impI)
  assume a: "addresses_webhook e"
  then obtain m p where r: "rq_route (invoke (\<lambda>c. c) e) = Route_init m p Map.empty"
    using addresses_webhook_route by metis
  from Route_init_no_parameters [of m p] r
  show "webhook_id (rq_route (invoke (\<lambda>c. c) e)) = PNone"
    and "webhook_token (rq_route (invoke (\<lambda>c. c) e)) = PNone"
    and "channel_id (rq_route (invoke (\<lambda>c. c) e)) = PNone"
    and "guild_id (rq_route (invoke (\<lambda>c. c) e)) = PNone"
    and "params (rq_route (invoke (\<lambda>c. c) e)) = Map.empty"
    and "\<not> truthy (webhook_token (rq_route (invoke (\<lambda>c. c) e)))"
    by simp_all
  from key_without_ids(1) [OF r]
  show "rl_bucket (rq_route (invoke (\<lambda>c. c) e)) =
        ''None:None:'' @ http_method (rq_route (invoke (\<lambda>c. c) e)) @ '' '' @
        path (rq_route (invoke (\<lambda>c. c) e))"
    by (simp add: endpoint_def)
next
  assume a: "addresses_webhook e \<and> addresses_webhook e'"
  then obtain m p where r: "rq_route (invoke (\<lambda>c. c) e) = Route_init m p Map.empty"
    using addresses_webhook_route by metis
  from a obtain m' p' where r': "rq_route (invoke (\<lambda>c. c) e') = Route_init m' p' Map.empty"
    using addresses_webhook_route by metis
  from key_without_ids(1) [OF r] key_without_ids(1) [OF r']
  show "(rl_bucket (rq_route (invoke (\<lambda>c. c) e)) = rl_bucket (rq_route (invoke (\<lambda>c. c) e'))) =
      (endpoint (rq_route (invoke (\<lambda>c. c) e)) = endpoint (rq_route (invoke (\<lambda>c. c) e')))"
    by simp
next
  show "path (rq_route (execute_webhook (\<lambda>c. c) w t payload wait th)) =
     ''/webhooks/'' @ py_str w @ ''/'' @ py_str t"
    by (simp add: webhook_routes(1) Route_init_def)
next
  show "path (rq_route (get_webhook (\<lambda>c. c) w t)) =
     ''/webhooks/'' @ py_str w @ (if truthy t then ''/'' @ py_str t else [])"
    by (simp add: webhook_routes(2) Route_init_def)
qed (rule webhook_routes)+

theorem webhook_routes_carry_no_ids_witness:
  "webhook_token (rq_route (invoke (\<lambda>c. c) (Execute_webhook (PInt 7) (PStr ''tok'') () True PNone))) = PNone \<and>
   rl_bucket (rq_route (invoke (\<lambda>c. c) (Execute_webhook (PInt 7) (PStr ''tok'') () True PNone)))
     = ''None:None:POST /webhooks/7/tok'' \<and>
   rl_bucket (rq_route (invoke (\<lambda>c. c) (Execute_webhook (PInt 7) (PStr ''tok'') () True PNone)))
     \<noteq> rl_bucket (rq_route (invoke (\<lambda>c. c) (Delete_webhook (PInt 8) (PStr ''tok'') :: unit api_call)))"
proof -
  let ?e = "Execute_webhook (PInt 7) (PStr ''tok'') () True PNone"
  let ?e' = "Delete_webhook (PInt 8) (PStr ''tok'') :: unit api_call"
  have a: "addresses_webhook ?e" and a': "addresses_webhook ?e'"
    by simp_all
  have m: "http_method (rq_route (invoke (\<lambda>c. c) ?e)) @ '' '' @ path (rq_route (invoke (\<lambda>c. c) ?e))
      = ''POST /webhooks/7/tok''"
    by (simp add: execute_webhook_def Route_init_def str_int_def str_nat_digit)
  have d: "endpoint (rq_route (invoke (\<lambda>c. c) ?e)) \<noteq> endpoint (rq_route (invoke (\<lambda>c. c) ?e'))"
    by (simp add: execute_webhook_def delete_webhook_def Route_init_def endpoint_def Let_def)
  note T = webhook_routes_carry_no_ids [of ?e ?e' "PInt 7" "PStr ''tok''" "()" True PNone]
  from T a have t: "webhook_token (rq_route (invoke (\<lambda>c. c) ?e)) = PNone"
    and k: "rl_bucket (rq_route (invoke (\<lambda>c. c) ?e)) =
        ''None:None:'' @ http_method (rq_route (invoke (\<lambda>c. c) ?e)) @ '' '' @
        path (rq_route (invoke (\<lambda>c. c) ?e))"
    by blast+
  from T a a' have "(rl_bucket (rq_route (invoke (\<lambda>c. c) ?e)) = rl_bucket (rq_route (invoke (\<lambda>c. c) ?e'))) =
      (endpoint (rq_route (invoke (\<lambda>c. c) ?e)) = endpoint (rq_route (invoke (\<lambda>c. c) ?e')))"
    by blast
  with d have n: "rl_bucket (rq_route (invoke (\<lambda>c. c) ?e)) \<noteq> rl_bucket (rq_route (invoke (\<lambda>c. c) ?e'))"
    by blast
  from k [unfolded m] have "rl_bucket (rq_route (invoke (\<lambda>c. c) ?e)) = ''None:None:POST /webhooks/7/tok''"
    by simp
  with t n show ?thesis
    by blast
qed

section \<open>Request functions call the request operation once\<close>

lemma invoke_is_one_request: "invoke request e = request (invoke (\<lambda>c. c) e)"
  by (cases e)
    (simp_all add: create_webhook_def get_channel_webhooks_def get_guild_webhooks_def
      get_webhook_def modify_webhook_def delete_webhook_def execute_webhook_def
      get_webhook_message_def edit_webhook_message_def delete_webhook_message_def
      get_current_user_def get_user_def modify_client_user_def get_user_guilds_def
      leave_guild_def create_dm_def create_group_dm_def get_user_connections_def
      group_dm_add_recipient_def group_dm_remove_recipient_def modify_current_user_nick_def
      get_sticker_def list_nitro_sticker_packs_def list_guild_stickers_def
      get_guild_sticker_def create_guild_sticker_def modify_guild_sticker_def
      delete_guild_sticker_def Let_def)

lemma execute_webhook_params:
  "map_of (dict_filter_none [(''wait'', PStr v), (''thread_id'', th)]) ''wait'' = Some (PStr v) \<and>
   map_of (dict_filter_none [(''wait'', PStr v), (''thread_id'', th)]) ''thread_id'' =
     (if th = PNone then None else Some th) \<and>
   map fst (dict_filter_none [(''wait'', PStr v), (''thread_id'', th)]) =
     (if th = PNone then [''wait''] else [''wait'', ''thread_id''])"
  by (simp add: dict_filter_none_def)

text \<open>
  C8. Every request function of webhooks.py, users.py and stickers.py makes exactly one
  call of the request operation and returns what that call returns: run against a request
  operation that records its calls, each function leaves the log longer by one call, and
  that call is the one written out below for it, with its Route built from the
  function's arguments and its \<open>data\<close>, \<open>params\<close> and \<open>reason\<close>. For \<open>execute_webhook\<close>
  the one call is a POST Route to \<open>/webhooks/\<close>, the webhook id, a slash and the webhook
  token, with the payload as data and, as params, \<open>dict_filter_none\<close> of \<open>wait\<close> and
  \<open>thread_id\<close>: \<open>wait\<close> is \<open>true\<close> when wait holds and \<open>false\<close> when not, and
  \<open>thread_id\<close> is present, with the thread id, exactly when that is not \<open>None\<close>.
\<close>

theorem request_functions_call_once:
  "(\<exists>c. invoke (recording respond) e log = (respond c, log @ [c])) \<and>
   (\<exists>c qs. execute_webhook (recording respond) w t payload wait th log = (respond c, log @ [c]) \<and>
      http_method (rq_route c) = ''POST'' \<and>
      path (rq_route c) = ''/webhooks/'' @ py_str w @ ''/'' @ py_str t \<and>
      rq_data c = Some (Payload payload) \<and>
      rq_params c = Some qs \<and>
      map_of qs ''wait'' = Some (PStr (if wait then ''true'' else ''false'')) \<and>
      map_of qs ''thread_id'' = (if th = PNone then None else Some th) \<and>
      map fst qs = (if th = PNone then [''wait''] else [''wait'', ''thread_id''])) \<and>
   invoke (recording respond) e log =
     (respond (invoke (\<lambda>c. c) e), log @ [invoke (\<lambda>c. c) e]) \<and>
   (let c = \<lparr> rq_route = Route_init ''POST'' (''/channels/'' @ py_str ch @ ''/webhooks'') Map.empty,
              rq_data = Some (Fields [(''name'', name), (''avatar'', avatar)]),
              rq_params = None,
              rq_reason = None \<rparr>
    in create_webhook (recording respond) ch name avatar log = (respond c, log @ [c])) \<and>
   (let c = \<lparr> rq_route = Route_init ''GET'' (''/channels/'' @ py_str ch @ ''/webhooks'') Map.empty,
              rq_data = None,
              rq_params = None,
              rq_reason = None \<rparr>
    in get_channel_webhooks (recording respond) ch log = (respond c, log @ [c])) \<and>
   (let c = \<lparr> rq_route = Route_init ''GET'' (''/guilds/'' @ py_str g @ ''/webhooks'') Map.empty,
              rq_data = None,
              rq_params = None,
              rq_reason = None \<rparr>
    in get_guild_webhooks (recording respond) g log = (respond c, log @ [c])) \<and>
   (let c = \<lparr> rq_route = Route_init ''GET'' (''/webhooks/'' @ py_str w @ (if truthy t then ''/'' @ py_str t else [])) Map.empty,
              rq_data = None,
              rq_params = None,
              rq_reason = None \<rparr>
    in get_webhook (recording respond) w t log = (respond c, log @ [c])) \<and>
   (let c = \<lparr> rq_route = Route_init ''PATCH'' (''/webhooks/'' @ py_str w @ (if truthy t then ''/'' @ py_str t else [])) Map.empty,
              rq_data = Some (Fields [(''name'', name), (''avatar'', avatar), (''channel_id'', ch)]),
              rq_params = None,
              rq_reason = None \<rparr>
    in modify_webhook (recording respond) w name avatar ch t log = (respond c, log @ [c])) \<and>
   (let c = \<lparr> rq_route = Route_init ''DELETE'' (''/webhooks/'' @ py_str w @ (if truthy t then ''/'' @ py_str t else [])) Map.empty,
              rq_data = None,
              rq_params = None,
              rq_reason = None \<rparr>
    in delete_webhook (recording respond) w t log = (respond c, log @ [c])) \<and>
   (let c = \<lparr> rq_route = Route_init ''POST'' (''/webhooks/'' @ py_str w @ ''/'' @ py_str t) Map.empty,
              rq_data = Some (Payload payload),
              rq_params = Some (dict_filter_none [(''wait'', PStr (if wait then ''true'' else ''false'')), (''thread_id'', th)]),
              rq_reason = None \<rparr>
    in execute_webhook (recording respond) w t payload wait th log = (respond c, log @ [c])) \<and>
   (let c = \<lparr> rq_route = Route_init ''GET'' (''/webhooks/'' @ py_str w @ ''/'' @ py_str t @ ''/messages/'' @ py_str msg) Map.empty,
              rq_data = None,
              rq_params = None,
              rq_reason = None \<rparr>
    in get_webhook_message (recording respond) w t msg log = (respond c, log @ [c])) \<and>
   (let c = \<lparr> rq_route = Route_init ''PATCH'' (''/webhooks/'' @ py_str w @ ''/'' @ py_str t @ ''/messages/'' @ py_str msg) Map.empty,
              rq_data = Some (Payload payload),
              rq_params = None,
              rq_reason = None \<rparr>
    in edit_webhook_message (recording respond) w t msg payload log = (respond c, log @ [c])) \<and>
   (let c = \<lparr> rq_route = Route_init ''DELETE'' (''/webhooks/'' @ py_str w @ ''/'' @ py_str t @ ''/messages/'' @ py_str msg) Map.empty,
              rq_data = None,
              rq_params = None,
              rq_reason = None \<rparr>
    in delete_webhook_message (recording respond) w t msg log = (respond c, log @ [c])) \<and>
   (let c = \<lparr> rq_route = Route_init ''GET'' (''/users/@me'') Map.empty,
              rq_data = None,
              rq_params = None,
              rq_reason = None \<rparr>
    in get_current_user (recording respond) log = (respond c, log @ [c])) \<and>
   (let c = \<lparr> rq_route = Route_init ''GET'' (''/users/'' @ py_str u) Map.empty,
              rq_data = None,
              rq_params = None,
              rq_reason = None \<rparr>
    in get_user (recording respond) u log = (respond c, log @ [c])) \<and>
   (let c = \<lparr> rq_route = Route_init ''PATCH'' (''/users/@me'') Map.empty,
              rq_data = Some (Payload payload),
              rq_params = None,
              rq_reason = None \<rparr>
    in modify_client_user (recording respond) payload log = (respond c, log @ [c])) \<and>
   (let c = \<lparr> rq_route = Route_init ''GET'' (''/users/@me/guilds'') Map.empty,
              rq_data = None,
              rq_params = None,
              rq_reason = None \<rparr>
    in get_user_guilds (recording respond) log = (respond c, log @ [c])) \<and>
   (let c = \<lparr> rq_route = Route_init ''DELETE'' (''/users/@me/guilds/'' @ py_str g) Map.empty,
              rq_data = None,
              rq_params = None,
              rq_reason = None \<rparr>
    in leave_guild (recording respond) g log = (respond c, log @ [c])) \<and>
   (let c = \<lparr> rq_route = Route_init ''POST'' (''/users/@me/channels'') Map.empty,
              rq_data = Some (Fields [(''recipient_id'', u)]),
              rq_params = None,
              rq_reason = None \<rparr>
    in create_dm (recording respond) u log = (respond c, log @ [c])) \<and>
   (let c = \<lparr> rq_route = Route_init ''POST'' (''/users/@me/channels'') Map.empty,
              rq_data = Some (Payload payload),
              rq_params = None,
              rq_reason = None \<rparr>
    in create_group_dm (recording respond) payload log = (respond c, log @ [c])) \<and>
   (let c = \<lparr> rq_route = Route_init ''GET'' (''/users/@me/connections'') Map.empty,
              rq_data = None,
              rq_params = None,
              rq_reason = None \<rparr>
    in get_user_connections (recording respond) log = (respond c, log @ [c])) \<and>
   (let c = \<lparr> rq_route = Route_init ''PUT'' (''/channels/'' @ py_str ch @ ''/recipients/'' @ py_str u) Map.empty,
              rq_data = Some (Fields [(''access_token'', access_token), (''nick'', nick)]),
              rq_params = None,
              rq_reason = None \<rparr>
    in group_dm_add_recipient (recording respond) ch u access_token nick log = (respond c, log @ [c])) \<and>
   (let c = \<lparr> rq_route = Route_init ''DELETE'' (''/channels/'' @ py_str ch @ ''/recipients/'' @ py_str u) Map.empty,
              rq_data = None,
              rq_params = None,
              rq_reason = None \<rparr>
    in group_dm_remove_recipient (recording respond) ch u log = (respond c, log @ [c])) \<and>
   (let c = \<lparr> rq_route = Route_init ''PATCH'' (''/guilds/'' @ py_str g @ ''/members/@me/nick'') Map.empty,
              rq_data = Some (Fields [(''nick'', nick)]),
              rq_params = None,
              rq_reason = None \<rparr>
    in modify_current_user_nick (recording respond) g nick log = (respond c, log @ [c])) \<and>
   (let c = \<lparr> rq_route = Route_init ''GET'' (''/stickers/'' @ py_str s) Map.empty,
              rq_data = None,
              rq_params = None,
              rq_reason = None \<rparr>
    in get_sticker (recording respond) s log = (respond c, log @ [c])) \<and>
   (let c = \<lparr> rq_route = Route_init ''GET'' (''/sticker-packs'') Map.empty,
              rq_data = None,
              rq_params = None,
              rq_reason = None \<rparr>
    in list_nitro_sticker_packs (recording respond) log = (respond c, log @ [c])) \<and>
   (let c = \<lparr> rq_route = Route_init ''GET'' (''/guilds/'' @ py_str g @ ''/stickers'') Map.empty,
              rq_data = None,
              rq_params = None,
              rq_reason = None \<rparr>
    in list_guild_stickers (recording respond) g log = (respond c, log @ [c])) \<and>
   (let c = \<lparr> rq_route = Route_init ''GET'' (''/guilds/'' @ py_str g @ ''/stickers/'' @ py_str s) Map.empty,
              rq_data = None,
              rq_params = None,
              rq_reason = None \<rparr>
    in get_guild_sticker (recording respond) g s log = (respond c, log @ [c])) \<and>
   (let c = \<lparr> rq_route = Route_init ''POST'' (''/guild/'' @ py_str g @ ''/stickers'') Map.empty,
              rq_data = Some (Payload payload),
              rq_params = None,
              rq_reason = Some reason \<rparr>
    in create_guild_sticker (recording respond) payload g reason log = (respond c, log @ [c])) \<and>
   (let c = \<lparr> rq_route = Route_init ''PATCH'' (''/guild/'' @ py_str g @ ''/stickers/'' @ py_str s) Map.empty,
              rq_data = Some (Payload payload),
              rq_params = None,
              rq_reason = Some reason \<rparr>
    in modify_guild_sticker (recording respond) payload g s reason log = (respond c, log @ [c])) \<and>
   (let c = \<lparr> rq_route = Route_init ''DELETE'' (''/guild/'' @ py_str g @ ''/stickers/'' @ py_str s) Map.empty,
              rq_data = None,
              rq_params = None,
              rq_reason = Some reason \<rparr>
    in delete_guild_sticker (recording respond) g s reason log = (respond c, log @ [c]))"
proof (intro conjI)
  have "invoke (recording respond) e log = recording respond (invoke (\<lambda>c. c) e) log"
    by (simp only: invoke_is_one_request [of "recording respond" e])
  then show one: "invoke (recording respond) e log =
      (respond (invoke (\<lambda>c. c) e), log @ [invoke (\<lambda>c. c) e])"
    by (simp add: recording_def)
  then show "\<exists>c. invoke (recording respond) e log = (respond c, log @ [c])"
    by blast
next
  let ?qs = "dict_filter_none
    [(''wait'', PStr (if wait then ''true'' else ''false'')), (''thread_id'', th)]"
  let ?c = "\<lparr> rq_route = Route_init ''POST'' (''/webhooks/'' @ py_str w @ ''/'' @ py_str t) Map.empty,
             rq_data = Some (Payload payload), rq_params = Some ?qs, rq_reason = None \<rparr>"
  have "execute_webhook (recording respond) w t payload wait th log = (respond ?c, log @ [?c])"
    by (simp add: execute_webhook_def recording_def)
  moreover have "http_method (rq_route ?c) = ''POST''"
    and "path (rq_route ?c) = ''/webhooks/'' @ py_str w @ ''/'' @ py_str t"
    and "rq_data ?c = Some (Payload payload)" and "rq_params ?c = Some ?qs"
    by (simp_all add: Route_init_def)
  moreover note execute_webhook_params [of "if wait then ''true'' else ''false''" th]
  ultimately show "\<exists>c qs. execute_webhook (recording respond) w t payload wait th log = (respond c, log @ [c]) \<and>
      http_method (rq_route c) = ''POST'' \<and>
      path (rq_route c) = ''/webhooks/'' @ py_str w @ ''/'' @ py_str t \<and>
      rq_data c = Some (Payload payload) \<and>
      rq_params c = Some qs \<and>
      map_of qs ''wait'' = Some (PStr (if wait then ''true'' else ''false'')) \<and>
      map_of qs ''thread_id'' = (if th = PNone then None else Some th) \<and>
      map fst qs = (if th = PNone then [''wait''] else [''wait'', ''thread_id''])"
    by blast
qed (simp_all only: Let_def create_webhook_def get_channel_webhooks_def get_guild_webhooks_def
      get_webhook_def modify_webhook_def delete_webhook_def execute_webhook_def
      get_webhook_message_def edit_webhook_message_def delete_webhook_message_def
      get_current_user_def get_user_def modify_client_user_def get_user_guilds_def
      leave_guild_def create_dm_def create_group_dm_def get_user_connections_def
      group_dm_add_recipient_def group_dm_remove_recipient_def modify_current_user_nick_def
      get_sticker_def list_nitro_sticker_packs_def list_guild_stickers_def
      get_guild_sticker_def create_guild_sticker_def modify_guild_sticker_def
      delete_guild_sticker_def recording_def py_str.simps append.simps)

theorem request_functions_call_once_witness:
  "length (snd (invoke (recording (\<lambda>c. ())) (Execute_webhook (PInt 7) (PStr ''tok'') ''hi'' True (PInt 9)) [])) = 1 \<and>
   length (snd (invoke (recording (\<lambda>c. ())) (Get_current_user :: string api_call) [])) = 1 \<and>
   snd (get_user (recording (\<lambda>c. ())) (PInt 7) ([] :: string request_call list)) =
     [\<lparr> rq_route = Route_init ''GET'' ''/users/7'' Map.empty,
        rq_data = None, rq_params = None, rq_reason = None \<rparr>]"
proof -
  from request_functions_call_once [of "\<lambda>c. ()" "Execute_webhook (PInt 7) (PStr ''tok'') ''hi'' True (PInt 9)" "[]"]
  obtain c where "invoke (recording (\<lambda>c. ())) (Execute_webhook (PInt 7) (PStr ''tok'') ''hi'' True (PInt 9)) []
      = ((), [] @ [c])"
    by blast
  then have 1: "length (snd (invoke (recording (\<lambda>c. ())) (Execute_webhook (PInt 7) (PStr ''tok'') ''hi'' True (PInt 9)) [])) = 1"
    by simp
  from request_functions_call_once [of "\<lambda>c. ()" "Get_current_user :: string api_call" "[]"]
  obtain c' where "invoke (recording (\<lambda>c. ())) (Get_current_user :: string api_call) [] = ((), [] @ [c'])"
    by blast
  then have 2: "length (snd (invoke (recording (\<lambda>c. ())) (Get_current_user :: string api_call) [])) = 1"
    by simp
  let ?c = "\<lparr> rq_route = Route_init ''GET'' (''/users/'' @ py_str (PInt 7)) Map.empty,
             rq_data = None, rq_params = None, rq_reason = None \<rparr> :: string request_call"
  have "get_user (recording (\<lambda>c. ())) (PInt 7) ([] :: string request_call list) = ((), [] @ [?c])"
    using request_functions_call_once
      [where respond = "\<lambda>c::string request_call. ()" and u = "PInt 7" and log = "[]"]
    by (simp only: Let_def)
  then have "snd (get_user (recording (\<lambda>c. ())) (PInt 7) ([] :: string request_call list)) =
     [\<lparr> rq_route = Route_init ''GET'' ''/users/7'' Map.empty,
        rq_data = None, rq_params = None, rq_reason = None \<rparr>]"
    by (simp add: str_int_def str_nat_digit)
  with 1 2 show ?thesis
    by blast
qed

section \<open>Terminal client errors\<close>

text \<open>
  C7. When the reply to the first exchange has a 4xx status other than 429, the
  dispatcher makes exactly one exchange and surfaces \<open>RemoteRejected\<close> with that status
  and the decoded remote error code, whatever the retry budgets are; so does a 403.
\<close>

theorem client_error_is_terminal:
  "(transport 0 = Reply status code body \<and> 400 \<le> status \<and> status < 500 \<and> status \<noteq> 429 \<longrightarrow>
      send transport throttle_retries fault_retries =
        (Failed RemoteRejected (Some status) (Some code), 1)) \<and>
   (transport 0 = Reply 403 code body \<longrightarrow>
      send transport throttle_retries fault_retries =
        (Failed RemoteRejected (Some 403) (Some code), 1))"
  by (simp add: send_def)

theorem client_error_is_terminal_witness:
  "send (\<lambda>n. if n = 0 then Reply 403 50013 ''Missing Permissions'' else Reply 200 0 ''ok'') 3 5
     = (Failed RemoteRejected (Some 403) (Some 50013), 1) \<and>
   send (\<lambda>n. if n = 0 then Reply 404 10003 ''Unknown Channel'' else Reply 200 0 ''ok'') 3 5
     = (Failed RemoteRejected (Some 404) (Some 10003), 1)"
proof -
  let ?t = "\<lambda>n::nat. if n = 0 then Reply 403 50013 ''Missing Permissions'' else Reply 200 0 ''ok''"
  let ?u = "\<lambda>n::nat. if n = 0 then Reply 404 10003 ''Unknown Channel'' else Reply 200 0 ''ok''"
  have "?t 0 = Reply 403 50013 ''Missing Permissions''"
    by simp
  with client_error_is_terminal [of ?t _ 50013 "''Missing Permissions''" 3 5]
  have 1: "send ?t 3 5 = (Failed RemoteRejected (Some 403) (Some 50013), 1)"
    by blast
  have "?u 0 = Reply 404 10003 ''Unknown Channel'' \<and> (400::nat) \<le> 404 \<and> (404::nat) < 500 \<and> (404::nat) \<noteq> 429"
    by simp
  with client_error_is_terminal [of ?u 404 10003 "''Unknown Channel''" 3 5]
  have "send ?u 3 5 = (Failed RemoteRejected (Some 404) (Some 10003), 1)"
    by blast
  with 1 show ?thesis
    by blast
qed

end
